theory Spec2Isabelle
  imports Complex_Main "HOL-Library.AList" "HOL-Library.Sublist"
begin

section \<open>Data model of the features engine\<close>

text \<open>
  The development embeds \<^verbatim>\<open>FeaturesEngine.cpp\<close> (namespace \<^verbatim>\<open>Recommendation\<close>).
  Identifiers of catalog objects are numbers and \<^verbatim>\<open>std::size_t\<close> is modelled as \<open>nat\<close>.
  A floating-point value is the real number it denotes; every floating-point operation of
  the program rounds its exact result to the format of its type (section on floating-point
  arithmetic below).
  A \<^verbatim>\<open>std::unordered_map\<close> is an association list with distinct keys, listed in the
  order in which the program iterates over it; a vector used as a set (filled through
  \<^verbatim>\<open>Utils::push_back_if_not_present\<close>) is a list.
\<close>

type_synonym TrackId = nat
type_synonym ReleaseId = nat
type_synonym ArtistId = nat
type_synonym TrackListId = nat
type_synonym TrackArtistLinkType = nat
type_synonym FeatureName = string
type_synonym Position = "nat \<times> nat"
type_synonym InputVector = "real list"
type_synonym FeatureValuesMap = "(FeatureName \<times> real list) list"

section \<open>Floating-point arithmetic\<close>

text \<open>
  A binary floating-point format with \<open>mantissaBits\<close> significant bits and smallest normal
  exponent \<open>minExponent\<close>; below it the spacing of the values stays that of the smallest
  normal binade (gradual underflow). The exponent range is not bounded above: an operation
  whose result would overflow yields a large finite value in the model.
\<close>

record FloatFormat =
  mantissaBits :: nat
  minExponent :: int

definition binary32 :: FloatFormat where
  "binary32 = \<lparr>mantissaBits = 24, minExponent = - 126\<rparr>"

definition binary64 :: FloatFormat where
  "binary64 = \<lparr>mantissaBits = 53, minExponent = - 1022\<rparr>"

text \<open>Rounding to the nearest integer, a tie going to the even one.\<close>

definition roundEven :: "real \<Rightarrow> int" where
  "roundEven y =
     (let f = \<lfloor>y\<rfloor>;
          r = y - of_int f
      in if r < 1 / 2 then f
         else if 1 / 2 < r then f + 1
         else if even f then f else f + 1)"

definition floatExponent :: "FloatFormat \<Rightarrow> real \<Rightarrow> int" where
  "floatExponent fmt x = max \<lfloor>log 2 \<bar>x\<bar>\<rfloor> (minExponent fmt)"

text \<open>The spacing of the values of the format around \<open>x\<close>.\<close>

definition quantum :: "FloatFormat \<Rightarrow> real \<Rightarrow> real" where
  "quantum fmt x = 2 powi (floatExponent fmt x - (int (mantissaBits fmt) - 1))"

text \<open>Rounding a real number to the nearest value of the format (the default rounding mode).\<close>

definition roundFloat :: "FloatFormat \<Rightarrow> real \<Rightarrow> real" where
  "roundFloat fmt x =
     (if x = 0 then 0 else of_int (roundEven (x / quantum fmt x)) * quantum fmt x)"

text \<open>Conversion of a \<^verbatim>\<open>std::size_t\<close>, division, multiplication and \<^verbatim>\<open>std::sqrt\<close>.\<close>

definition flOfNat :: "FloatFormat \<Rightarrow> nat \<Rightarrow> real" where
  "flOfNat fmt n = roundFloat fmt (real n)"

definition flDiv :: "FloatFormat \<Rightarrow> real \<Rightarrow> real \<Rightarrow> real" where
  "flDiv fmt x y = roundFloat fmt (x / y)"

definition flMul :: "FloatFormat \<Rightarrow> real \<Rightarrow> real \<Rightarrow> real" where
  "flMul fmt x y = roundFloat fmt (x * y)"

definition flSqrt :: "FloatFormat \<Rightarrow> real \<Rightarrow> real" where
  "flSqrt fmt x = roundFloat fmt (sqrt x)"

section \<open>Settings and failures\<close>

record FeatureSettings =
  weight :: real

type_synonym FeatureSettingsMap = "(FeatureName \<times> FeatureSettings) list"

text \<open>
  \<^verbatim>\<open>TrainSettings\<close> is declared outside this file. \<open>sampleCountFormat\<close> is not a member: it
  records the floating-point format of the type of the member \<^verbatim>\<open>sampleCountPerNeuron\<close>,
  which that declaration fixes.
\<close>

record TrainSettings =
  iterationCount :: nat
  sampleCountPerNeuron :: real
  featureSettingsMap :: FeatureSettingsMap
  sampleCountFormat :: FloatFormat

text \<open>
  The failures of the program that the model keeps apart: an index past the end of an
  \<^verbatim>\<open>InputVector\<close>, the \<^verbatim>\<open>assert\<close> of \<^verbatim>\<open>getInputVectorWeights\<close>, the dereference of an
  empty \<^verbatim>\<open>_network\<close> pointer in \<^verbatim>\<open>toCache\<close>, and the conversion of a floating-point value
  that no \<^verbatim>\<open>SOM::Coordinate\<close> represents.
\<close>

datatype error = OutOfRange | AssertionFailed | NullNetwork | UndefinedConversion

section \<open>Feature vectors and weights\<close>

text \<open>\<^verbatim>\<open>v[i] = val\<close> on an \<^verbatim>\<open>InputVector\<close>.\<close>

definition writeAt :: "InputVector \<Rightarrow> nat \<Rightarrow> real \<Rightarrow> error + InputVector" where
  "writeAt v i val = (if i < length v then Inr (v[i := val]) else Inl OutOfRange)"

text \<open>The loop \<^verbatim>\<open>for (double val : values) (*res)[i++] = val;\<close>\<close>

fun writeValues :: "real list \<Rightarrow> InputVector \<times> nat \<Rightarrow> error + (InputVector \<times> nat)" where
  "writeValues [] (res, i) = Inr (res, i)"
| "writeValues (val # vals) (res, i) =
     (case writeAt res i val of
        Inl e \<Rightarrow> Inl e
      | Inr res' \<Rightarrow> writeValues vals (res', Suc i))"

text \<open>
  The loop of \<^verbatim>\<open>convertFeatureValuesMapToInputVector\<close> over the entries of the value map.
  \<open>nbDims\<close> stands for \<^verbatim>\<open>getFeatureDef(featureName).nbDimensions\<close>, a table declared outside
  this file. \<open>None\<close> is the reset optional (dimension mismatch).
\<close>

fun convertLoop :: "(FeatureName \<Rightarrow> nat) \<Rightarrow> FeatureValuesMap \<Rightarrow> InputVector \<times> nat
    \<Rightarrow> error + InputVector option" where
  "convertLoop nbDims [] (res, i) = Inr (Some res)"
| "convertLoop nbDims ((featureName, values) # rest) (res, i) =
     (if length values \<noteq> nbDims featureName then Inr None
      else (case writeValues values (res, i) of
              Inl e \<Rightarrow> Inl e
            | Inr st \<Rightarrow> convertLoop nbDims rest st))"

definition convertFeatureValuesMapToInputVector ::
    "(FeatureName \<Rightarrow> nat) \<Rightarrow> FeatureValuesMap \<Rightarrow> nat \<Rightarrow> error + InputVector option" where
  "convertFeatureValuesMapToInputVector nbDims featureValuesMap nbDimensions =
     convertLoop nbDims featureValuesMap (replicate nbDimensions 0, 0)"

text \<open>The inner loop of \<^verbatim>\<open>getInputVectorWeights\<close>: \<open>n\<close> writes of the same value.\<close>

fun fillWeights :: "nat \<Rightarrow> real \<Rightarrow> InputVector \<times> nat \<Rightarrow> error + (InputVector \<times> nat)" where
  "fillWeights 0 val (weights, index) = Inr (weights, index)"
| "fillWeights (Suc n) val (weights, index) =
     (case writeAt weights index val of
        Inl e \<Rightarrow> Inl e
      | Inr weights' \<Rightarrow> fillWeights n val (weights', Suc index))"

text \<open>
  The outer loop. The value \<^verbatim>\<open>1. / featureNbDimensions * featureSettings.weight\<close> has a
  \<^verbatim>\<open>double\<close> literal as its first operand, so the division and the multiplication are
  \<^verbatim>\<open>double\<close> operations, each rounding its result.
\<close>

fun weightsLoop :: "(FeatureName \<Rightarrow> nat) \<Rightarrow> FeatureSettingsMap \<Rightarrow> InputVector \<times> nat
    \<Rightarrow> error + (InputVector \<times> nat)" where
  "weightsLoop nbDims [] st = Inr st"
| "weightsLoop nbDims ((featureName, featureSettings) # rest) st =
     (let featureNbDimensions = nbDims featureName in
      case fillWeights featureNbDimensions
             (flMul binary64 (flDiv binary64 1 (flOfNat binary64 featureNbDimensions))
                (weight featureSettings)) st of
        Inl e \<Rightarrow> Inl e
      | Inr st' \<Rightarrow> weightsLoop nbDims rest st')"

definition getInputVectorWeights ::
    "(FeatureName \<Rightarrow> nat) \<Rightarrow> FeatureSettingsMap \<Rightarrow> nat \<Rightarrow> error + InputVector" where
  "getInputVectorWeights nbDims settingsMap nbDimensions =
     (case weightsLoop nbDims settingsMap (replicate nbDimensions 0, 0) of
        Inl e \<Rightarrow> Inl e
      | Inr (weights, index) \<Rightarrow>
          if index = nbDimensions then Inr weights else Inl AssertionFailed)"

text \<open>
  The first statements of \<^verbatim>\<open>loadFromTraining\<close>: the feature names are collected into an
  \<^verbatim>\<open>unordered_set\<close> (a name already present is not inserted again) and their dimensions
  are summed with \<^verbatim>\<open>std::accumulate\<close>.
\<close>

definition insertName :: "FeatureName list \<Rightarrow> FeatureName \<Rightarrow> FeatureName list" where
  "insertName names name = (if name \<in> set names then names else names @ [name])"

definition collectFeatureNames :: "FeatureSettingsMap \<Rightarrow> FeatureName list" where
  "collectFeatureNames settingsMap = foldl insertName [] (map fst settingsMap)"

definition totalDimensions :: "(FeatureName \<Rightarrow> nat) \<Rightarrow> FeatureName list \<Rightarrow> nat" where
  "totalDimensions nbDims featureNames =
     foldl (\<lambda>sum featureName. sum + nbDims featureName) 0 featureNames"

text \<open>The vector the weights loop is meant to produce, and the offset of a feature in it.\<close>

definition expectedWeights :: "(FeatureName \<Rightarrow> nat) \<Rightarrow> FeatureSettingsMap \<Rightarrow> InputVector" where
  "expectedWeights nbDims settingsMap =
     concat (map (\<lambda>(featureName, featureSettings).
        replicate (nbDims featureName)
          (flMul binary64 (flDiv binary64 1 (flOfNat binary64 (nbDims featureName)))
             (weight featureSettings)))
        settingsMap)"


section \<open>Catalog, network, cache and engine state\<close>

text \<open>
  The catalog is what the program reads through the database session: \<^verbatim>\<open>Track::getById\<close>
  (with the track's release, artist links and stored feature values),
  \<^verbatim>\<open>Track::getAllIdsWithFeatures\<close>, the three \<^verbatim>\<open>exists\<close> checks and the track lists.
  \<^verbatim>\<open>Track::exists\<close> and \<^verbatim>\<open>Track::getById\<close> read the same table.
\<close>

record Track =
  trackRelease :: "ReleaseId option"
  trackArtistLinks :: "(ArtistId \<times> TrackArtistLinkType) list"
  trackFeatureValues :: "FeatureName list \<Rightarrow> FeatureValuesMap"

record Catalog =
  tracks :: "TrackId \<rightharpoonup> Track"
  allIdsWithFeatures :: "TrackId list"
  releaseExists :: "ReleaseId \<Rightarrow> bool"
  artistExists :: "ArtistId \<Rightarrow> bool"
  trackLists :: "TrackListId \<rightharpoonup> TrackId list"

definition trackExists :: "Catalog \<Rightarrow> TrackId \<Rightarrow> bool" where
  "trackExists cat trackId = (tracks cat trackId \<noteq> None)"

text \<open>
  Modelled from the spec: the class \<^verbatim>\<open>SOM::Network\<close> is declared outside this file; the
  record has the fields the spec lists for a Network (width, height, dimensions, reference
  vectors, data weights).
\<close>

record Network =
  width :: nat
  height :: nat
  dimensions :: nat
  refVectors :: "InputVector list"
  dataWeights :: InputVector

text \<open>
  What the engine uses of the SOM library, whose code is outside this file; these are
  parameters of the model: the number of value bits of the unsigned type
  \<^verbatim>\<open>SOM::Coordinate\<close>, the initial state of a new network, the per-sample result of
  \<^verbatim>\<open>DataNormalizer\<close> (factors computed from the whole corpus), the reference vectors after
  one iteration of \<^verbatim>\<open>Network::train\<close> (iteration number, iteration count),
  \<^verbatim>\<open>getClosestRefVectorPosition\<close> and \<^verbatim>\<open>computeRefVectorsDistanceMedian\<close>.
\<close>

record SOM =
  coordinateBits :: nat
  initRefVectors :: "nat \<Rightarrow> nat \<Rightarrow> nat \<Rightarrow> InputVector list"
  initDataWeights :: "nat \<Rightarrow> InputVector"
  normalizeData :: "nat \<Rightarrow> InputVector list \<Rightarrow> InputVector \<Rightarrow> InputVector"
  trainIteration :: "Network \<Rightarrow> InputVector list \<Rightarrow> nat \<Rightarrow> nat \<Rightarrow> InputVector list"
  closestRefVectorPosition :: "Network \<Rightarrow> InputVector \<Rightarrow> Position"
  refVectorsDistanceMedian :: "Network \<Rightarrow> real"

text \<open>
  Modelled from the spec: \<^verbatim>\<open>Matrix\<close> is declared outside this file; it maps every position
  to the entities recorded there and carries the width and height it was built with.
\<close>

record Matrix =
  matrixWidth :: nat
  matrixHeight :: nat
  cells :: "Position \<Rightarrow> nat list"

type_synonym Positions = "(nat \<times> Position list) list"

record FeaturesEngineCache =
  cacheNetwork :: Network
  cacheTrackPositions :: Positions

text \<open>
  The persistent cache file behind \<^verbatim>\<open>FeaturesEngineCache::read\<close>, \<^verbatim>\<open>write\<close> and
  \<^verbatim>\<open>invalidate\<close>; \<open>writeCount\<close> counts the calls of \<^verbatim>\<open>write\<close>.
\<close>

record CacheStore =
  stored :: "FeaturesEngineCache option"
  writeCount :: nat

definition cacheRead :: "CacheStore \<Rightarrow> FeaturesEngineCache option" where
  "cacheRead store = stored store"

definition cacheInvalidate :: "CacheStore \<Rightarrow> CacheStore" where
  "cacheInvalidate store = store\<lparr>stored := None\<rparr>"

definition cacheWrite :: "FeaturesEngineCache \<Rightarrow> CacheStore \<Rightarrow> CacheStore" where
  "cacheWrite cache store = \<lparr>stored = Some cache, writeCount = Suc (writeCount store)\<rparr>"

text \<open>
  The members of \<^verbatim>\<open>FeaturesEngine\<close>; \<open>network = None\<close> is the empty \<^verbatim>\<open>unique_ptr\<close>.
  \<open>cancelPending\<close> is not a member. \<^verbatim>\<open>requestCancelLoad\<close> is called by another thread while
  \<^verbatim>\<open>load\<close> runs; \<open>cancelPending = Some k\<close> says that such a call takes effect after \<open>k\<close>
  more reads of \<^verbatim>\<open>_loadCancelled\<close> have returned false, \<open>None\<close> that no call is under way.
\<close>

record FeaturesEngine =
  loadCancelled :: bool
  cancelPending :: "nat option"
  network :: "Network option"
  networkRefVectorsDistanceMedian :: real
  trackPositions :: Positions
  releasePositions :: Positions
  artistPositions :: Positions
  trackMatrix :: Matrix
  releaseMatrix :: Matrix
  artistMatrix :: "(TrackArtistLinkType \<times> Matrix) list"
  featuresFetchFunc :: "(TrackId \<Rightarrow> FeatureName list \<Rightarrow> FeatureValuesMap option) option"

definition emptyMatrix :: "nat \<Rightarrow> nat \<Rightarrow> Matrix" where
  "emptyMatrix w h = \<lparr>matrixWidth = w, matrixHeight = h, cells = (\<lambda>position. [])\<rparr>"

text \<open>A freshly constructed engine: nothing loaded, no cancellation requested.\<close>

definition newEngine ::
    "(TrackId \<Rightarrow> FeatureName list \<Rightarrow> FeatureValuesMap option) option \<Rightarrow> FeaturesEngine" where
  "newEngine fetchFunc =
     \<lparr>loadCancelled = False, cancelPending = None, network = None,
      networkRefVectorsDistanceMedian = 0,
      trackPositions = [], releasePositions = [], artistPositions = [],
      trackMatrix = emptyMatrix 0 0, releaseMatrix = emptyMatrix 0 0, artistMatrix = [],
      featuresFetchFunc = fetchFunc\<rparr>"

definition requestCancelLoad :: "FeaturesEngine \<Rightarrow> FeaturesEngine" where
  "requestCancelLoad eng = eng\<lparr>loadCancelled := True\<rparr>"

text \<open>
  One read of \<^verbatim>\<open>_loadCancelled\<close> by the loading thread: the value read, and the engine
  after it. A pending request whose turn has come sets the flag just before the read.
\<close>

definition pollCancelled :: "FeaturesEngine \<Rightarrow> bool \<times> FeaturesEngine" where
  "pollCancelled eng =
     (if loadCancelled eng then (True, eng)
      else (case cancelPending eng of
              None \<Rightarrow> (False, eng)
            | Some 0 \<Rightarrow> (True, eng\<lparr>loadCancelled := True, cancelPending := None\<rparr>)
            | Some (Suc k) \<Rightarrow> (False, eng\<lparr>cancelPending := Some k\<rparr>)))"

section \<open>Building the position index\<close>

text \<open>\<^verbatim>\<open>Utils::push_back_if_not_present(container, value)\<close>\<close>

definition pushBackIfNotPresent :: "'a list \<Rightarrow> 'a \<Rightarrow> 'a list" where
  "pushBackIfNotPresent xs x = (if x \<in> set xs then xs else xs @ [x])"

text \<open>\<^verbatim>\<open>map[key]\<close> on a positions map: the stored vector, or a new empty one.\<close>

definition positionsOf :: "Positions \<Rightarrow> nat \<Rightarrow> Position list" where
  "positionsOf m key = (case map_of m key of None \<Rightarrow> [] | Some ps \<Rightarrow> ps)"

text \<open>\<^verbatim>\<open>push_back_if_not_present(map[key], position)\<close>\<close>

definition addPosition :: "Positions \<Rightarrow> nat \<Rightarrow> Position \<Rightarrow> Positions" where
  "addPosition m key position =
     AList.update key (pushBackIfNotPresent (positionsOf m key) position) m"

text \<open>\<^verbatim>\<open>push_back_if_not_present(matrix[position], id)\<close>\<close>

definition addToCell :: "Matrix \<Rightarrow> Position \<Rightarrow> nat \<Rightarrow> Matrix" where
  "addToCell m position ident =
     m\<lparr>cells := (cells m)(position := pushBackIfNotPresent (cells m position) ident)\<rparr>"

text \<open>The body of the loop over \<^verbatim>\<open>track->getArtistLinks()\<close>.\<close>

definition addArtistLink :: "nat \<Rightarrow> nat \<Rightarrow> Position \<Rightarrow> FeaturesEngine
    \<Rightarrow> ArtistId \<times> TrackArtistLinkType \<Rightarrow> FeaturesEngine" where
  "addArtistLink w h position eng link =
     (let artistId = fst link;
          linkType = snd link;
          eng1 = eng\<lparr>artistPositions := addPosition (artistPositions eng) artistId position\<rparr>;
          m = (case map_of (artistMatrix eng1) linkType of
                 None \<Rightarrow> emptyMatrix w h
               | Some m' \<Rightarrow> m')
      in eng1\<lparr>artistMatrix :=
            AList.update linkType (addToCell m position artistId) (artistMatrix eng1)\<rparr>)"

text \<open>The body of the loop over the positions of one track.\<close>

definition addTrackPosition :: "nat \<Rightarrow> nat \<Rightarrow> Track \<Rightarrow> TrackId \<Rightarrow> FeaturesEngine
    \<Rightarrow> Position \<Rightarrow> FeaturesEngine" where
  "addTrackPosition w h track trackId eng position =
     (let eng1 = eng\<lparr>trackPositions := addPosition (trackPositions eng) trackId position,
                     trackMatrix := addToCell (trackMatrix eng) position trackId\<rparr>;
          eng2 = (case trackRelease track of
                    None \<Rightarrow> eng1
                  | Some releaseId \<Rightarrow>
                      eng1\<lparr>releasePositions :=
                              addPosition (releasePositions eng1) releaseId position,
                           releaseMatrix := addToCell (releaseMatrix eng1) position releaseId\<rparr>)
      in foldl (addArtistLink w h position) eng2 (trackArtistLinks track))"

text \<open>
  The loop of \<^verbatim>\<open>load(network, trackPositions)\<close> over the entries of the model. The second
  component tells whether the loop ran to its end (\<open>False\<close>: the \<^verbatim>\<open>return\<close> taken when
  \<^verbatim>\<open>_loadCancelled\<close> is read as set).
\<close>

fun loadLoop :: "Catalog \<Rightarrow> nat \<Rightarrow> nat \<Rightarrow> Positions \<Rightarrow> FeaturesEngine
    \<Rightarrow> FeaturesEngine \<times> bool" where
  "loadLoop cat w h [] eng = (eng, True)"
| "loadLoop cat w h ((trackId, positions) # rest) eng =
     (case pollCancelled eng of
        (cancelled, eng1) \<Rightarrow>
          if cancelled then (eng1, False)
          else (case tracks cat trackId of
                  None \<Rightarrow> loadLoop cat w h rest eng1
                | Some track \<Rightarrow>
                    loadLoop cat w h rest
                      (foldl (addTrackPosition w h track trackId) eng1 positions)))"

text \<open>\<^verbatim>\<open>FeaturesEngine::load(const SOM::Network&, const TrackPositions&)\<close>\<close>

definition loadModel :: "SOM \<Rightarrow> Catalog \<Rightarrow> Network \<Rightarrow> Positions \<Rightarrow> FeaturesEngine
    \<Rightarrow> FeaturesEngine" where
  "loadModel som cat net positions eng =
     (let eng1 = eng\<lparr>networkRefVectorsDistanceMedian := refVectorsDistanceMedian som net,
                     releaseMatrix := emptyMatrix (width net) (height net),
                     trackMatrix := emptyMatrix (width net) (height net)\<rparr>;
          res = loadLoop cat (width net) (height net) positions eng1
      in if snd res then (fst res)\<lparr>network := Some net\<rparr> else fst res)"

definition loadFromCache :: "SOM \<Rightarrow> Catalog \<Rightarrow> FeaturesEngineCache \<Rightarrow> FeaturesEngine
    \<Rightarrow> FeaturesEngine" where
  "loadFromCache som cat cache eng =
     loadModel som cat (cacheNetwork cache) (cacheTrackPositions cache) eng"

text \<open>\<^verbatim>\<open>toCache\<close> dereferences \<^verbatim>\<open>_network\<close>.\<close>

definition toCache :: "FeaturesEngine \<Rightarrow> error + FeaturesEngineCache" where
  "toCache eng =
     (case network eng of
        None \<Rightarrow> Inl NullNetwork
      | Some net \<Rightarrow> Inr \<lparr>cacheNetwork = net, cacheTrackPositions = trackPositions eng\<rparr>)"

section \<open>Training\<close>

definition getDefaultTrainFeatureSettings :: FeatureSettingsMap where
  "getDefaultTrainFeatureSettings =
     [(''lowlevel.spectral_energyband_high.mean'', \<lparr>weight = 1\<rparr>),
      (''lowlevel.spectral_rolloff.median'', \<lparr>weight = 1\<rparr>),
      (''lowlevel.spectral_contrast_valleys.var'', \<lparr>weight = 1\<rparr>),
      (''lowlevel.erbbands.mean'', \<lparr>weight = 1\<rparr>),
      (''lowlevel.gfcc.mean'', \<lparr>weight = 1\<rparr>)]"

definition getTrackFeatureValuesFromDb ::
    "Catalog \<Rightarrow> TrackId \<Rightarrow> FeatureName list \<Rightarrow> FeatureValuesMap option" where
  "getTrackFeatureValuesFromDb cat trackId featureNames =
     (case tracks cat trackId of
        None \<Rightarrow> None
      | Some track \<Rightarrow>
          (let res = trackFeatureValues track featureNames
           in if res = [] then None else Some res))"

text \<open>The choice between \<^verbatim>\<open>_featuresFetchFunc\<close> and the database in the extraction loop.\<close>

definition fetchFeatureValues ::
    "Catalog \<Rightarrow> FeaturesEngine \<Rightarrow> TrackId \<Rightarrow> FeatureName list \<Rightarrow> FeatureValuesMap option" where
  "fetchFeatureValues cat eng trackId featureNames =
     (case featuresFetchFunc eng of
        Some func \<Rightarrow> func trackId featureNames
      | None \<Rightarrow> getTrackFeatureValuesFromDb cat trackId featureNames)"

text \<open>
  The extraction loop of \<^verbatim>\<open>loadFromTraining\<close>. The state is the engine (for the reads of
  the flag) and the pair of vectors \<^verbatim>\<open>samples\<close> and \<^verbatim>\<open>samplesTrackIds\<close>; a result
  \<open>None\<close> is the \<^verbatim>\<open>return\<close> on cancellation.
\<close>

fun extractLoop :: "(FeatureName \<Rightarrow> nat) \<Rightarrow> Catalog \<Rightarrow> FeatureName list \<Rightarrow> nat
    \<Rightarrow> TrackId list \<Rightarrow> FeaturesEngine \<Rightarrow> InputVector list \<times> TrackId list
    \<Rightarrow> error + (FeaturesEngine \<times> (InputVector list \<times> TrackId list) option)" where
  "extractLoop nbDims cat featureNames nbDimensions [] eng acc = Inr (eng, Some acc)"
| "extractLoop nbDims cat featureNames nbDimensions (trackId # rest) eng (samples, samplesTrackIds) =
     (case pollCancelled eng of
        (cancelled, eng1) \<Rightarrow>
          if cancelled then Inr (eng1, None)
          else (case fetchFeatureValues cat eng1 trackId featureNames of
                  None \<Rightarrow>
                    extractLoop nbDims cat featureNames nbDimensions rest eng1
                      (samples, samplesTrackIds)
                | Some featureValuesMap \<Rightarrow>
                    (case convertFeatureValuesMapToInputVector nbDims featureValuesMap
                            nbDimensions of
                       Inl e \<Rightarrow> Inl e
                     | Inr None \<Rightarrow>
                         extractLoop nbDims cat featureNames nbDimensions rest eng1
                           (samples, samplesTrackIds)
                     | Inr (Some inputVector) \<Rightarrow>
                         extractLoop nbDims cat featureNames nbDimensions rest eng1
                           (samples @ [inputVector], samplesTrackIds @ [trackId]))))"

text \<open>
  The operand of the conversion at the computation of the grid side,
  \<^verbatim>\<open>std::sqrt(samples.size() / trainSettings.sampleCountPerNeuron)\<close>: the sample count is
  converted to the format of \<^verbatim>\<open>sampleCountPerNeuron\<close>, and the division and the square root
  are operations of that format.
\<close>

definition gridRoot :: "FloatFormat \<Rightarrow> nat \<Rightarrow> real \<Rightarrow> real" where
  "gridRoot fmt sampleCount perNeuron =
     flSqrt fmt (flDiv fmt (flOfNat fmt sampleCount) perNeuron)"

text \<open>
  The side of the square grid: \<^verbatim>\<open>static_cast<SOM::Coordinate>(...)\<close> of that value, raised
  to 2 when smaller. The conversion drops the fraction; it is undefined when the result is
  not a value of \<^verbatim>\<open>SOM::Coordinate\<close>, and so is the computation when
  \<^verbatim>\<open>sampleCountPerNeuron\<close> is not positive (the operand is then infinite or not a number).
\<close>

definition gridSize :: "FloatFormat \<Rightarrow> nat \<Rightarrow> nat \<Rightarrow> real \<Rightarrow> error + nat" where
  "gridSize fmt bits sampleCount perNeuron =
     (if perNeuron \<le> 0 \<or> 2 ^ bits \<le> gridRoot fmt sampleCount perNeuron
      then Inl UndefinedConversion
      else (let side = nat \<lfloor>gridRoot fmt sampleCount perNeuron\<rfloor>
            in Inr (if side < 2 then 2 else side)))"

text \<open>
  Modelled from the spec: \<^verbatim>\<open>Network::train\<close> is missing from the sources. The spec says:
  for the iterations \<open>0\<close> to \<open>iterationCount - 1\<close>, check the cancellation predicate at the
  start of the iteration and stop if it holds, leaving the reference vectors as they were
  after the last completed iteration; else move the reference vectors (one iteration).
  The predicate handed over by \<^verbatim>\<open>loadFromTraining\<close> reads \<^verbatim>\<open>_loadCancelled\<close>. The third
  argument counts the iterations still to run.
\<close>

fun trainLoop :: "SOM \<Rightarrow> InputVector list \<Rightarrow> nat \<Rightarrow> nat \<Rightarrow> Network \<times> FeaturesEngine
    \<Rightarrow> Network \<times> FeaturesEngine" where
  "trainLoop som samples iterations 0 st = st"
| "trainLoop som samples iterations (Suc remaining) (net, eng) =
     (case pollCancelled eng of
        (cancelled, eng1) \<Rightarrow>
          if cancelled then (net, eng1)
          else trainLoop som samples iterations remaining
                 (net\<lparr>refVectors :=
                       trainIteration som net samples (iterations - Suc remaining) iterations\<rparr>,
                  eng1))"

text \<open>
  The classification loop: \<^verbatim>\<open>trackPositions[samplesTrackIds[i]].push_back(position)\<close>,
  with \<open>None\<close> for the \<^verbatim>\<open>return\<close> on cancellation.
\<close>

fun classifyLoop :: "SOM \<Rightarrow> Network \<Rightarrow> (InputVector \<times> TrackId) list \<Rightarrow> FeaturesEngine
    \<Rightarrow> Positions \<Rightarrow> FeaturesEngine \<times> Positions option" where
  "classifyLoop som net [] eng positions = (eng, Some positions)"
| "classifyLoop som net ((sample, trackId) # rest) eng positions =
     (case pollCancelled eng of
        (cancelled, eng1) \<Rightarrow>
          if cancelled then (eng1, None)
          else classifyLoop som net rest eng1
                 (AList.update trackId
                    (positionsOf positions trackId @ [closestRefVectorPosition som net sample])
                    positions))"

text \<open>
  \<^verbatim>\<open>FeaturesEngine::loadFromTraining\<close>. The progress callback only reports and is left out.
\<close>

definition loadFromTraining :: "SOM \<Rightarrow> (FeatureName \<Rightarrow> nat) \<Rightarrow> Catalog \<Rightarrow> TrainSettings
    \<Rightarrow> FeaturesEngine \<Rightarrow> error + FeaturesEngine" where
  "loadFromTraining som nbDims cat trainSettings eng =
     (let featureNames = collectFeatureNames (featureSettingsMap trainSettings);
          nbDimensions = totalDimensions nbDims featureNames;
          trackIds = allIdsWithFeatures cat
      in case extractLoop nbDims cat featureNames nbDimensions trackIds eng ([], []) of
           Inl e \<Rightarrow> Inl e
         | Inr (eng1, None) \<Rightarrow> Inr eng1
         | Inr (eng1, Some (samples, samplesTrackIds)) \<Rightarrow>
             if samples = [] then Inr eng1
             else
               (let normalized = map (normalizeData som nbDimensions samples) samples
                in case gridSize (sampleCountFormat trainSettings) (coordinateBits som)
                          (length normalized) (sampleCountPerNeuron trainSettings) of
                     Inl e \<Rightarrow> Inl e
                   | Inr side \<Rightarrow>
                       (let net0 = \<lparr>width = side, height = side, dimensions = nbDimensions,
                                   refVectors = initRefVectors som side side nbDimensions,
                                   dataWeights = initDataWeights som nbDimensions\<rparr>
                        in case getInputVectorWeights nbDims (featureSettingsMap trainSettings)
                                  nbDimensions of
                             Inl e \<Rightarrow> Inl e
                           | Inr weights \<Rightarrow>
                               (let net1 = net0\<lparr>dataWeights := weights\<rparr>;
                                    trained = trainLoop som normalized
                                      (iterationCount trainSettings)
                                      (iterationCount trainSettings) (net1, eng1)
                                in case classifyLoop som (fst trained)
                                          (zip normalized samplesTrackIds) (snd trained) [] of
                                     (eng2, None) \<Rightarrow> Inr eng2
                                   | (eng2, Some positions) \<Rightarrow>
                                       Inr (loadModel som cat (fst trained) positions eng2)))))"

text \<open>
  \<^verbatim>\<open>FeaturesEngine::load(bool forceReload, const ProgressCallback&)\<close>. \<open>defaults\<close> is the
  default-constructed \<^verbatim>\<open>TrainSettings\<close>, whose member initialisers are outside this file.
\<close>

definition load :: "SOM \<Rightarrow> (FeatureName \<Rightarrow> nat) \<Rightarrow> TrainSettings \<Rightarrow> bool \<Rightarrow> Catalog
    \<Rightarrow> FeaturesEngine \<times> CacheStore \<Rightarrow> error + (FeaturesEngine \<times> CacheStore)" where
  "load som nbDims defaults forceReload cat st =
     (let eng = fst st;
          store = snd st;
          fromTraining = (\<lambda>store'.
            (let trainSettings =
                   defaults\<lparr>featureSettingsMap := getDefaultTrainFeatureSettings\<rparr>
             in case loadFromTraining som nbDims cat trainSettings eng of
                  Inl e \<Rightarrow> Inl e
                | Inr eng1 \<Rightarrow>
                    (case pollCancelled eng1 of
                       (cancelled, eng2) \<Rightarrow>
                         if \<not> cancelled
                         then (case toCache eng2 of
                                 Inl e \<Rightarrow> Inl e
                               | Inr cache \<Rightarrow> Inr (eng2, cacheWrite cache store'))
                         else Inr (eng2, store'))))
      in if forceReload then fromTraining (cacheInvalidate store)
         else (case cacheRead store of
                 Some cache \<Rightarrow> Inr (loadFromCache som cat cache eng, store)
               | None \<Rightarrow> fromTraining store))"

section \<open>Similarity queries\<close>

text \<open>
  The member template \<^verbatim>\<open>getSimilarObjects\<close> is declared outside this file. The query
  functions below take it as the parameter \<open>gso\<close> (engine, query ids, matrix, positions map,
  \<open>maxCount\<close>), so that what is proved of their own code holds for any such function.
\<close>

type_synonym SimilarObjects =
  "FeaturesEngine \<Rightarrow> nat list \<Rightarrow> Matrix \<Rightarrow> Positions \<Rightarrow> nat \<Rightarrow> nat list"

text \<open>
  Modelled from the spec: \<^verbatim>\<open>getSimilarObjects\<close> is missing from the sources. The spec says:
  resolve the query entities' grid position set via the index; collect the candidate
  entities from the cells of the inverse matrix at these positions, excluding the query
  entities themselves, capped at \<open>maxCount\<close>.
\<close>

definition getSimilarObjects :: SimilarObjects where
  "getSimilarObjects eng ids objectsMap objectPositions maxCount =
     (let positions = remdups (concat (map (positionsOf objectPositions) ids));
          candidates = remdups (concat (map (cells objectsMap) positions))
      in take maxCount (filter (\<lambda>ident. ident \<notin> set ids) candidates))"

text \<open>\<^verbatim>\<open>FeaturesEngine::getSimilarTracks\<close>: \<^verbatim>\<open>erase(remove_if(...))\<close> keeps, in order, the
  ids for which \<^verbatim>\<open>Track::exists\<close> holds.\<close>

definition getSimilarTracks :: "SimilarObjects \<Rightarrow> Catalog \<Rightarrow> FeaturesEngine \<Rightarrow> TrackId list
    \<Rightarrow> nat \<Rightarrow> TrackId list" where
  "getSimilarTracks gso cat eng tracksIds maxCount =
     (let similarTrackIds = gso eng tracksIds (trackMatrix eng) (trackPositions eng) maxCount
      in filter (trackExists cat) similarTrackIds)"

definition getSimilarTracksFromTrackList :: "SimilarObjects \<Rightarrow> Catalog \<Rightarrow> FeaturesEngine
    \<Rightarrow> TrackListId \<Rightarrow> nat \<Rightarrow> TrackId list" where
  "getSimilarTracksFromTrackList gso cat eng trackListId maxCount =
     (let trackIds = (case trackLists cat trackListId of
                        None \<Rightarrow> []
                      | Some ids \<Rightarrow> ids)
      in getSimilarTracks gso cat eng trackIds maxCount)"

definition getSimilarReleases :: "SimilarObjects \<Rightarrow> Catalog \<Rightarrow> FeaturesEngine \<Rightarrow> ReleaseId
    \<Rightarrow> nat \<Rightarrow> ReleaseId list" where
  "getSimilarReleases gso cat eng releaseId maxCount =
     (let similarReleaseIds =
            gso eng [releaseId] (releaseMatrix eng) (releasePositions eng) maxCount
      in if similarReleaseIds \<noteq> []
         then filter (releaseExists cat) similarReleaseIds
         else similarReleaseIds)"

text \<open>The lambda \<^verbatim>\<open>getSimilarArtistIdsForLinkType\<close> of \<^verbatim>\<open>getSimilarArtists\<close>.\<close>

definition getSimilarArtistIdsForLinkType :: "SimilarObjects \<Rightarrow> FeaturesEngine \<Rightarrow> ArtistId
    \<Rightarrow> nat \<Rightarrow> TrackArtistLinkType \<Rightarrow> ArtistId list" where
  "getSimilarArtistIdsForLinkType gso eng artistId maxCount linkType =
     (case map_of (artistMatrix eng) linkType of
        None \<Rightarrow> []
      | Some m \<Rightarrow> gso eng [artistId] m (artistPositions eng) maxCount)"

text \<open>
  The \<^verbatim>\<open>unordered_set\<close> filled in the loop over the link types, then copied into the vector
  \<^verbatim>\<open>res\<close>. The order of that copy is not fixed by the program; the model lists the ids in
  the order of their first insertion.
\<close>

definition similarArtistIdsUnion :: "SimilarObjects \<Rightarrow> FeaturesEngine \<Rightarrow> ArtistId
    \<Rightarrow> TrackArtistLinkType list \<Rightarrow> nat \<Rightarrow> ArtistId list" where
  "similarArtistIdsUnion gso eng artistId linkTypes maxCount =
     foldl (\<lambda>acc linkType.
              foldl pushBackIfNotPresent acc
                (getSimilarArtistIdsForLinkType gso eng artistId maxCount linkType))
       [] linkTypes"

text \<open>\<^verbatim>\<open>res.erase(it)\<close> for the element at index \<open>i\<close>.\<close>

definition eraseAt :: "nat \<Rightarrow> 'a list \<Rightarrow> 'a list" where
  "eraseAt i xs = take i xs @ drop (Suc i) xs"

text \<open>
  The loop \<^verbatim>\<open>while (res.size() > maxCount) res.erase(Random::pickRandom(res));\<close>
  \<^verbatim>\<open>Random::pickRandom\<close> is outside this file; the random draws are the parameter \<open>rnd\<close>,
  and the \<open>k\<close>-th call picks the element at index \<open>rnd k mod res.size()\<close>.
\<close>

function trimLoop :: "(nat \<Rightarrow> nat) \<Rightarrow> nat \<Rightarrow> nat \<Rightarrow> 'a list \<Rightarrow> 'a list" where
  "trimLoop rnd k maxCount res =
     (if length res > maxCount
      then trimLoop rnd (Suc k) maxCount (eraseAt (rnd k mod length res) res)
      else res)"
  by pat_completeness auto
termination
proof (relation "measure (\<lambda>(rnd, k, maxCount, res). length res)")
  show "wf (measure (\<lambda>(rnd, k, maxCount, res). length res))" by simp
next
  fix rnd :: "nat \<Rightarrow> nat" and k maxCount :: nat and res :: "'a list"
  assume "maxCount < length res"
  then have "res \<noteq> []" by auto
  then have "rnd k mod length res < length res" by simp
  then show "((rnd, Suc k, maxCount, eraseAt (rnd k mod length res) res), (rnd, k, maxCount, res))
      \<in> measure (\<lambda>(rnd, k, maxCount, res). length res)"
    by (simp add: eraseAt_def)
qed

declare trimLoop.simps [simp del]

definition getSimilarArtists :: "SimilarObjects \<Rightarrow> (nat \<Rightarrow> nat) \<Rightarrow> Catalog \<Rightarrow> FeaturesEngine
    \<Rightarrow> ArtistId \<Rightarrow> TrackArtistLinkType list \<Rightarrow> nat \<Rightarrow> ArtistId list" where
  "getSimilarArtists gso rnd cat eng artistId linkTypes maxCount =
     (let res = similarArtistIdsUnion gso eng artistId linkTypes maxCount;
          existing = filter (artistExists cat) res
      in trimLoop rnd 0 maxCount existing)"

section \<open>Notions used to state the properties\<close>

text \<open>
  A fetched value map is well formed for a request when its keys are distinct (it is a map)
  and all among the requested feature names.
\<close>

definition wellFormedValues :: "FeatureName list \<Rightarrow> FeatureValuesMap \<Rightarrow> bool" where
  "wellFormedValues featureNames m =
     (distinct (map fst m) \<and> list_all (\<lambda>name. name \<in> set featureNames) (map fst m))"

text \<open>Some feature of the map has a stored value count other than its declared dimension.\<close>

definition dimensionMismatch :: "(FeatureName \<Rightarrow> nat) \<Rightarrow> FeatureValuesMap \<Rightarrow> bool" where
  "dimensionMismatch nbDims m = list_ex (\<lambda>(name, values). length values \<noteq> nbDims name) m"

text \<open>
  The sample a track contributes: none when nothing was fetched or a dimension is wrong,
  else the stored values in the order of the map, followed by zeros up to \<open>nbDimensions\<close>.
\<close>

definition sampleOf :: "(FeatureName \<Rightarrow> nat) \<Rightarrow> nat \<Rightarrow> FeatureValuesMap option
    \<Rightarrow> InputVector option" where
  "sampleOf nbDims nbDimensions fetched =
     (case fetched of
        None \<Rightarrow> None
      | Some m \<Rightarrow>
          if dimensionMismatch nbDims m then None
          else Some (concat (map snd m)
                     @ replicate (nbDimensions - length (concat (map snd m))) 0))"

definition keptSamples :: "(FeatureName \<Rightarrow> nat) \<Rightarrow> Catalog \<Rightarrow> FeaturesEngine \<Rightarrow> FeatureName list
    \<Rightarrow> nat \<Rightarrow> TrackId list \<Rightarrow> (InputVector \<times> TrackId) list" where
  "keptSamples nbDims cat eng featureNames nbDimensions trackIds =
     List.map_filter
       (\<lambda>trackId. map_option (\<lambda>v. (v, trackId))
          (sampleOf nbDims nbDimensions (fetchFeatureValues cat eng trackId featureNames)))
       trackIds"

text \<open>
  What adopting a positions map into a fresh engine keeps: the entries of tracks that exist
  and have a position, each position list without repetitions (first occurrences kept).
\<close>

definition adoptedPositions :: "Catalog \<Rightarrow> Positions \<Rightarrow> Positions" where
  "adoptedPositions cat positions =
     map (\<lambda>(trackId, ps). (trackId, foldl pushBackIfNotPresent [] ps))
       (filter (\<lambda>(trackId, ps). trackExists cat trackId \<and> ps \<noteq> []) positions)"



text \<open>No cancellation has been requested and none is under way.\<close>

definition noCancellation :: "FeaturesEngine \<Rightarrow> bool" where
  "noCancellation eng = (\<not> loadCancelled eng \<and> cancelPending eng = None)"

text \<open>The engine once a pending request has taken effect.\<close>

definition cancellationObserved :: "FeaturesEngine \<Rightarrow> FeaturesEngine" where
  "cancellationObserved eng = eng\<lparr>loadCancelled := True, cancelPending := None\<rparr>"

text \<open>
  The settings \<^verbatim>\<open>load\<close> trains with, their feature names and dimension count, and the
  samples the extraction loop keeps when it is not cancelled.
\<close>

definition loadSettings :: "TrainSettings \<Rightarrow> TrainSettings" where
  "loadSettings defaults = defaults\<lparr>featureSettingsMap := getDefaultTrainFeatureSettings\<rparr>"

definition loadFeatureNames :: "FeatureName list" where
  "loadFeatureNames = collectFeatureNames getDefaultTrainFeatureSettings"

definition loadSamples :: "(FeatureName \<Rightarrow> nat) \<Rightarrow> Catalog \<Rightarrow> FeaturesEngine
    \<Rightarrow> (InputVector \<times> TrackId) list" where
  "loadSamples nbDims cat eng =
     keptSamples nbDims cat eng loadFeatureNames (totalDimensions nbDims loadFeatureNames)
       (allIdsWithFeatures cat)"

text \<open>
  The number of reads of \<^verbatim>\<open>_loadCancelled\<close> that a training \<^verbatim>\<open>load\<close> makes before it
  enters \<^verbatim>\<open>load(network, trackPositions)\<close>: one per track in the extraction loop, then, with
  samples, one per training iteration and one per sample in the classification loop, and,
  without samples, the read that guards the cache write.
\<close>

definition readsBeforeIndexing :: "(FeatureName \<Rightarrow> nat) \<Rightarrow> TrainSettings \<Rightarrow> Catalog
    \<Rightarrow> FeaturesEngine \<Rightarrow> nat" where
  "readsBeforeIndexing nbDims defaults cat eng =
     length (allIdsWithFeatures cat)
     + (if loadSamples nbDims cat eng = [] then 1
        else iterationCount defaults + length (loadSamples nbDims cat eng))"

section \<open>A small catalog and model\<close>

text \<open>
  Concrete data on which the theorems below are instantiated: a SOM whose training leaves
  the reference vectors as they are and which classifies every sample into cell \<open>(0, 0)\<close>,
  and a catalog of three tracks, each with its own release and with one artist for each
  of the link types 0 and 2 (artist 20 is credited on track 1 under both).
\<close>

definition exampleSOM :: SOM where
  "exampleSOM =
     \<lparr>coordinateBits = 32,
      initRefVectors = (\<lambda>w h d. replicate (w * h) (replicate d 0)),
      initDataWeights = (\<lambda>d. replicate d 1),
      normalizeData = (\<lambda>d samples v. v),
      trainIteration = (\<lambda>net samples k n. refVectors net),
      closestRefVectorPosition = (\<lambda>net v. (0, 0)),
      refVectorsDistanceMedian = (\<lambda>net. 0)\<rparr>"

definition exampleTrack :: "ReleaseId \<Rightarrow> ArtistId \<Rightarrow> ArtistId \<Rightarrow> real list \<Rightarrow> Track" where
  "exampleTrack releaseId artist0 artist1 values =
     \<lparr>trackRelease = Some releaseId,
      trackArtistLinks = [(artist0, 0), (artist1, 2)],
      trackFeatureValues = (\<lambda>names. [(''a'', values)])\<rparr>"

definition exampleCatalog :: Catalog where
  "exampleCatalog =
     \<lparr>tracks = [1 \<mapsto> exampleTrack 10 20 20 [1], 2 \<mapsto> exampleTrack 11 21 23 [2],
                3 \<mapsto> exampleTrack 12 22 24 [3]],
      allIdsWithFeatures = [1, 2, 3],
      releaseExists = (\<lambda>r. r = 10 \<or> r = 11 \<or> r = 12),
      artistExists = (\<lambda>a. a = 20 \<or> a = 21 \<or> a = 22 \<or> a = 23 \<or> a = 24),
      trackLists = [1 \<mapsto> [1]]\<rparr>"

text \<open>The same catalog after track 3, its release and the artists 22, 23 and 24 were deleted.\<close>

definition catalogAfterDeletion :: Catalog where
  "catalogAfterDeletion =
     \<lparr>tracks = [1 \<mapsto> exampleTrack 10 20 20 [1], 2 \<mapsto> exampleTrack 11 21 23 [2]],
      allIdsWithFeatures = [1, 2],
      releaseExists = (\<lambda>r. r = 10 \<or> r = 11),
      artistExists = (\<lambda>a. a = 20 \<or> a = 21),
      trackLists = [1 \<mapsto> [1]]\<rparr>"

definition exampleNetwork :: Network where
  "exampleNetwork =
     \<lparr>width = 2, height = 2, dimensions = 1, refVectors = [[0], [0], [0], [0]],
      dataWeights = [1]\<rparr>"

definition exampleCache :: FeaturesEngineCache where
  "exampleCache =
     \<lparr>cacheNetwork = exampleNetwork,
      cacheTrackPositions = [(1, [(0, 0)]), (2, [(0, 0)]), (3, [(0, 0)])]\<rparr>"

text \<open>The engine after adopting the cached model while all three tracks exist.\<close>

definition exampleEngine :: FeaturesEngine where
  "exampleEngine = loadFromCache exampleSOM exampleCatalog exampleCache (newEngine None)"

text \<open>A catalog in which track 2 stores two values for the one-dimensional feature.\<close>

definition catalogWithMismatch :: Catalog where
  "catalogWithMismatch =
     \<lparr>tracks = [1 \<mapsto> exampleTrack 10 20 20 [1], 2 \<mapsto> exampleTrack 11 21 23 [2, 5],
                3 \<mapsto> exampleTrack 12 22 24 [3]],
      allIdsWithFeatures = [1, 2, 3],
      releaseExists = (\<lambda>r. r = 10 \<or> r = 11 \<or> r = 12),
      artistExists = (\<lambda>a. a = 20 \<or> a = 21 \<or> a = 22 \<or> a = 23 \<or> a = 24),
      trackLists = [1 \<mapsto> [1]]\<rparr>"

text \<open>Train settings with the single feature of the example, of dimension 1.\<close>

definition exampleSettings :: TrainSettings where
  "exampleSettings =
     \<lparr>iterationCount = 10, sampleCountPerNeuron = 4,
      featureSettingsMap = [(''a'', \<lparr>weight = 1\<rparr>)], sampleCountFormat = binary32\<rparr>"

definition exampleDims :: "FeatureName \<Rightarrow> nat" where
  "exampleDims name = 1"

text \<open>A second model on the same grid, in which only track 1 is placed, at \<open>(1, 1)\<close>.\<close>

definition secondCache :: FeaturesEngineCache where
  "secondCache =
     \<lparr>cacheNetwork = exampleNetwork, cacheTrackPositions = [(1, [(1, 1)])]\<rparr>"

text \<open>A catalog without any track that has features.\<close>

definition emptyCatalog :: Catalog where
  "emptyCatalog =
     \<lparr>tracks = Map.empty, allIdsWithFeatures = [],
      releaseExists = (\<lambda>r. False), artistExists = (\<lambda>a. False), trackLists = Map.empty\<rparr>"

text \<open>A catalog with a single track, and the engine that adopted \<open>exampleCache\<close> and then
  \<open>secondCache\<close>; random draws that always pick the first element.\<close>

definition singleTrackCatalog :: Catalog where
  "singleTrackCatalog =
     \<lparr>tracks = [1 \<mapsto> exampleTrack 10 20 20 [1]], allIdsWithFeatures = [1],
      releaseExists = (\<lambda>r. r = 10), artistExists = (\<lambda>a. a = 20), trackLists = Map.empty\<rparr>"

definition reloadedEngine :: FeaturesEngine where
  "reloadedEngine = loadFromCache exampleSOM exampleCatalog secondCache exampleEngine"

definition firstDraws :: "nat \<Rightarrow> nat" where
  "firstDraws k = 0"

definition emptyStore :: CacheStore where
  "emptyStore = \<lparr>stored = None, writeCount = 0\<rparr>"


section \<open>Floating-point arithmetic: helper lemmas\<close>

lemma roundEven_of_int [simp]: "roundEven (of_int m) = m"
  by (simp add: roundEven_def)

lemma roundEven_numeral [simp]: "roundEven (numeral n) = numeral n"
  using roundEven_of_int [of "numeral n"] by simp


lemma quantum_pos: "0 < quantum fmt x"
  by (simp add: quantum_def)

lemma floor_log2_eq:
  assumes "0 < x" and "2 powi e \<le> x" and "x < 2 powi (e + 1)"
  shows "\<lfloor>log 2 x\<rfloor> = e"
proof -
  have a: "2 powr (of_int e) \<le> x"
    using assms(2) by (simp add: powr_real_of_int')
  have "2 powr (real_of_int (e + 1)) = 2 powi (e + 1)"
    by (rule powr_real_of_int') simp_all
  then have b: "x < 2 powr (of_int e + 1)"
    using assms(3) by simp
  show ?thesis
    using assms(1) a b by (simp add: floor_log_eq_powr_iff)
qed

lemma roundFloat_at:
  assumes "2 powi e \<le> \<bar>x\<bar>" and "\<bar>x\<bar> < 2 powi (e + 1)" and "minExponent fmt \<le> e"
  shows "roundFloat fmt x =
     of_int (roundEven (x / 2 powi (e - (int (mantissaBits fmt) - 1))))
       * 2 powi (e - (int (mantissaBits fmt) - 1))"
proof -
  have pos: "0 < \<bar>x\<bar>"
    using assms(1) by (smt (verit) zero_less_power_int)
  have "\<lfloor>log 2 \<bar>x\<bar>\<rfloor> = e" using pos assms(1,2) by (rule floor_log2_eq)
  then have "quantum fmt x = 2 powi (e - (int (mantissaBits fmt) - 1))"
    using assms(3) by (simp add: quantum_def floatExponent_def max_def)
  then show ?thesis using pos by (simp add: roundFloat_def)
qed

lemma roundFloat_exact:
  assumes "x / quantum fmt x = of_int m"
  shows "roundFloat fmt x = x"
proof (cases "x = 0")
  case True
  then show ?thesis by (simp add: roundFloat_def)
next
  case False
  have "of_int (roundEven (x / quantum fmt x)) * quantum fmt x = x / quantum fmt x * quantum fmt x"
    by (simp add: assms)
  also have "\<dots> = x" using quantum_pos [of fmt x] by simp
  finally show ?thesis using False by (simp add: roundFloat_def)
qed


lemma powi_floor_log_le:
  assumes "x \<noteq> 0"
  shows "2 powi \<lfloor>log 2 \<bar>x\<bar>\<rfloor> \<le> \<bar>x\<bar>"
proof -
  have pos: "0 < \<bar>x\<bar>" using assms by simp
  have "2 powr (of_int \<lfloor>log 2 \<bar>x\<bar>\<rfloor>) \<le> 2 powr (log 2 \<bar>x\<bar>)"
    by (intro powr_mono) simp_all
  also have "\<dots> = \<bar>x\<bar>" using pos by simp
  finally show ?thesis by (simp add: powr_real_of_int')
qed


lemma roundFloat_binary64_at:
  assumes "2 powi e \<le> \<bar>x\<bar>" and "\<bar>x\<bar> < 2 powi (e + 1)" and "- 1022 \<le> e"
  shows "roundFloat binary64 x = of_int (roundEven (x / 2 powi (e - 52))) * 2 powi (e - 52)"
  using roundFloat_at [OF assms(1,2), of binary64] assms(3) by (simp add: binary64_def)

lemma roundFloat_binary32_at:
  assumes "2 powi e \<le> \<bar>x\<bar>" and "\<bar>x\<bar> < 2 powi (e + 1)" and "- 126 \<le> e"
  shows "roundFloat binary32 x = of_int (roundEven (x / 2 powi (e - 23))) * 2 powi (e - 23)"
  using roundFloat_at [OF assms(1,2), of binary32] assms(3) by (simp add: binary32_def)

section \<open>Weights: helper lemmas\<close>

lemma fillWeights_run:
  "index + n \<le> length weights \<Longrightarrow>
   fillWeights n val (weights, index) =
     Inr (take index weights @ replicate n val @ drop (index + n) weights, index + n)"
proof (induction n arbitrary: weights index)
  case 0
  then show ?case by simp
next
  case (Suc n)
  have lt: "index < length weights" using Suc.prems by simp
  have step: "Suc index + n \<le> length (weights[index := val])" using Suc.prems by simp
  have "take (Suc index) (weights[index := val]) = take index weights @ [val]"
    using lt by (simp add: take_Suc_conv_app_nth)
  moreover have "drop (Suc index + n) (weights[index := val]) = drop (Suc (index + n)) weights"
    by simp
  ultimately show ?case
    using lt Suc.IH [OF step] by (simp add: writeAt_def replicate_app_Cons_same)
qed

lemma weightsLoop_run:
  "index + length (expectedWeights nbDims fsm) \<le> length weights \<Longrightarrow>
   weightsLoop nbDims fsm (weights, index) =
     Inr (take index weights @ expectedWeights nbDims fsm
            @ drop (index + length (expectedWeights nbDims fsm)) weights,
          index + length (expectedWeights nbDims fsm))"
proof (induction fsm arbitrary: weights index)
  case Nil
  then show ?case by (simp add: expectedWeights_def)
next
  case (Cons entry fsm)
  obtain name s where entry: "entry = (name, s)" by (cases entry)
  define n where "n = nbDims name"
  define val where "val = flMul binary64 (flDiv binary64 1 (flOfNat binary64 n)) (weight s)"
  define rest where "rest = expectedWeights nbDims fsm"
  have ew: "expectedWeights nbDims (entry # fsm) = replicate n val @ rest"
    by (simp add: expectedWeights_def entry n_def val_def rest_def)
  have bound: "index + n + length rest \<le> length weights"
    using Cons.prems by (simp add: ew)
  define weights' where
    "weights' = take index weights @ replicate n val @ drop (index + n) weights"
  have fill: "fillWeights n val (weights, index) = Inr (weights', index + n)"
    unfolding weights'_def using bound by (intro fillWeights_run) simp
  have len: "length weights' = length weights"
    using bound by (simp add: weights'_def)
  have ih: "weightsLoop nbDims fsm (weights', index + n) =
      Inr (take (index + n) weights' @ rest @ drop (index + n + length rest) weights',
           index + n + length rest)"
    unfolding rest_def
    using bound len by (intro Cons.IH) (simp add: rest_def)
  have t: "take (index + n) weights' = take index weights @ replicate n val"
    using bound by (simp add: weights'_def)
  have d: "drop (index + n + length rest) weights' = drop (index + n + length rest) weights"
    using bound by (simp add: weights'_def add.commute add.left_commute)
  have unfold: "weightsLoop nbDims (entry # fsm) (weights, index) =
      (case fillWeights n val (weights, index) of
         Inl e \<Rightarrow> Inl e
       | Inr st' \<Rightarrow> weightsLoop nbDims fsm st')"
    by (simp add: entry n_def val_def Let_def)
  have "weightsLoop nbDims (entry # fsm) (weights, index) =
      weightsLoop nbDims fsm (weights', index + n)"
    by (simp only: unfold fill sum.case)
  also have "\<dots> = Inr ((take index weights @ replicate n val) @ rest
        @ drop (index + n + length rest) weights, index + n + length rest)"
    by (simp only: ih t d)
  finally show ?case
    by (simp add: ew add.assoc)
qed

lemma collectFeatureNames_distinct:
  "distinct (names @ ns) \<Longrightarrow> foldl insertName names ns = names @ ns"
  by (induction ns arbitrary: names) (auto simp: insertName_def)

lemma totalDimensions_foldl:
  "foldl (\<lambda>sum featureName. sum + nbDims featureName) a names = a + sum_list (map nbDims names)"
  by (induction names arbitrary: a) (auto simp: add.assoc)

lemma length_expectedWeights:
  "length (expectedWeights nbDims fsm) = sum_list (map (nbDims \<circ> fst) fsm)"
  by (induction fsm) (auto simp: expectedWeights_def)

lemma totalDimensions_collect:
  assumes "distinct (map fst fsm)"
  shows "totalDimensions nbDims (collectFeatureNames fsm) = length (expectedWeights nbDims fsm)"
proof -
  have "collectFeatureNames fsm = map fst fsm"
    using collectFeatureNames_distinct [of "[]" "map fst fsm"] assms
    by (simp add: collectFeatureNames_def)
  then show ?thesis
    by (simp add: totalDimensions_def totalDimensions_foldl length_expectedWeights comp_def)
qed

lemma getInputVectorWeights_exact:
  "getInputVectorWeights nbDims fsm (length (expectedWeights nbDims fsm)) =
     Inr (expectedWeights nbDims fsm)"
  using weightsLoop_run [of 0 nbDims fsm "replicate (length (expectedWeights nbDims fsm)) 0"]
  by (simp add: getInputVectorWeights_def)



lemma div_powi_nonpos:
  assumes "d \<le> 0"
  shows "real n / 2 powi d = of_int (int n * 2 ^ nat (- d))"
proof -
  have "(2::real) powi d = inverse (2 powi (- d))"
    by (simp add: power_int_minus)
  also have "(2::real) powi (- d) = 2 ^ nat (- d)"
    using assms by (simp add: power_int_def)
  finally show ?thesis by (simp add: field_simps)
qed

lemma flOfNat_binary64_exact:
  assumes "n \<le> 2 ^ 53"
  shows "flOfNat binary64 n = real n"
proof (cases "n = 0")
  case True
  then show ?thesis by (simp add: flOfNat_def roundFloat_def)
next
  case False
  define x where "x = real n"
  define L where "L = \<lfloor>log 2 \<bar>x\<bar>\<rfloor>"
  have x1: "1 \<le> x" using False by (simp add: x_def)
  have xu: "x \<le> 2 ^ 53" using assms unfolding x_def
    by (metis of_nat_le_iff of_nat_numeral of_nat_power)
  have nz: "x \<noteq> 0" using x1 by simp
  have L0: "0 \<le> L"
  proof -
    have "0 \<le> log 2 x" using x1 by simp
    then show ?thesis using x1 by (simp add: L_def)
  qed
  have lo: "2 powi L \<le> x"
    using powi_floor_log_le [OF nz] x1 by (simp add: L_def)
  have L53: "L \<le> 53"
  proof -
    have "2 powi L \<le> (2::real) powi 53" using lo xu by simp
    then show ?thesis by (rule power_int_le_imp_le_exp [rotated]) simp_all
  qed
  have q: "quantum binary64 x = 2 powi (L - 52)"
    using L0 by (simp add: quantum_def floatExponent_def L_def binary64_def max_def)
  have "\<exists>m. x / quantum binary64 x = of_int m"
  proof (cases "L \<le> 52")
    case True
    then have "real n / 2 powi (L - 52) = of_int (int n * 2 ^ nat (- (L - 52)))"
      by (intro div_powi_nonpos) simp
    then have "x / 2 powi (L - 52) = of_int (int n * 2 ^ nat (- (L - 52)))"
      by (simp add: x_def)
    then show ?thesis unfolding q by blast
  next
    case False
    then have L: "L = 53" using L53 by simp
    have "x = 2 ^ 53" using lo xu by (simp add: L)
    moreover have "quantum binary64 x = 2" by (simp add: q L)
    ultimately have "x / quantum binary64 x = of_int (2 ^ 52)" by simp
    then show ?thesis by blast
  qed
  then obtain m where "x / quantum binary64 x = of_int m" by blast
  then have "roundFloat binary64 x = x" by (rule roundFloat_exact)
  then show ?thesis by (simp add: flOfNat_def x_def)
qed


lemma roundFloat_binary64_examples:
  "roundFloat binary64 (1 / 2) = 1 / 2"
  "roundFloat binary64 (3 / 2) = 3 / 2"
  "roundFloat binary64 1 = 1"
  "roundFloat binary64 5 = 5"
  "roundFloat binary64 (1 / 6) = 6004799503160661 / 36028797018963968"
  "roundFloat binary64 (6004799503160661 / 36028797018963968)
     = 6004799503160661 / 36028797018963968"
  using roundFloat_binary64_at [of "- 1" "1 / 2"] roundFloat_binary64_at [of 0 "3 / 2"]
    roundFloat_binary64_at [of 0 1] roundFloat_binary64_at [of 2 5]
    roundFloat_binary64_at [of "- 3" "1 / 6"]
    roundFloat_binary64_at [of "- 3" "6004799503160661 / 36028797018963968"]
  by (simp_all add: roundEven_def)

lemma weight_value_examples:
  "flMul binary64 (flDiv binary64 1 (flOfNat binary64 2)) 3 = 3 / 2"
  "flMul binary64 (flDiv binary64 1 (flOfNat binary64 (Suc 0))) 5 = 5"
  "flMul binary64 (flDiv binary64 1 (flOfNat binary64 6)) 1
     = 6004799503160661 / 36028797018963968"
  using flOfNat_binary64_exact [of 2] flOfNat_binary64_exact [of "Suc 0"]
    flOfNat_binary64_exact [of 6]
  by (simp_all add: flMul_def flDiv_def roundFloat_binary64_examples)

lemma example_expectedWeights:
  "expectedWeights (\<lambda>name. if name = ''a'' then 2 else 1)
     [(''a'', \<lparr>weight = 3\<rparr>), (''b'', \<lparr>weight = 5\<rparr>)] = [3 / 2, 3 / 2, 5]"
  by (simp add: expectedWeights_def weight_value_examples) (simp add: numeral_2_eq_2)

lemma example_getInputVectorWeights:
  "getInputVectorWeights (\<lambda>name. if name = ''a'' then 2 else 1)
     [(''a'', \<lparr>weight = 3\<rparr>), (''b'', \<lparr>weight = 5\<rparr>)] 3 = Inr [3 / 2, 3 / 2, 5]"
proof -
  let ?nd = "\<lambda>name. if name = ''a'' then 2 else (1::nat)"
  let ?fsm = "[(''a'', \<lparr>weight = 3\<rparr>), (''b'', \<lparr>weight = 5\<rparr>)]"
  have l: "length (expectedWeights ?nd ?fsm) = 3" by (simp add: example_expectedWeights)
  show ?thesis
    using getInputVectorWeights_exact [of ?nd ?fsm] unfolding l unfolding example_expectedWeights .
qed


section \<open>Weights: the claims\<close>

text \<open>
  C10. The assertion of \<^verbatim>\<open>getInputVectorWeights\<close> cannot fire: when \<open>nbDimensions\<close> is the
  sum that \<^verbatim>\<open>loadFromTraining\<close> computes over the names of the settings map, the loop
  performs exactly \<open>nbDimensions\<close> writes, none of them past the end of the vector, and the
  index it ends with equals \<open>nbDimensions\<close>; the function returns a vector of that length.
\<close>

theorem getInputVectorWeights_assert_holds:
  assumes "distinct (map fst fsm)"
  shows "\<exists>weights.
      weightsLoop nbDims fsm
          (replicate (totalDimensions nbDims (collectFeatureNames fsm)) 0, 0)
        = Inr (weights, totalDimensions nbDims (collectFeatureNames fsm))
    \<and> getInputVectorWeights nbDims fsm (totalDimensions nbDims (collectFeatureNames fsm))
        = Inr weights
    \<and> length weights = totalDimensions nbDims (collectFeatureNames fsm)"
proof -
  define n where "n = totalDimensions nbDims (collectFeatureNames fsm)"
  have n: "n = length (expectedWeights nbDims fsm)"
    unfolding n_def using assms by (rule totalDimensions_collect)
  have "weightsLoop nbDims fsm (replicate n 0, 0) = Inr (expectedWeights nbDims fsm, n)"
    using weightsLoop_run [of 0 nbDims fsm "replicate n 0"] by (simp add: n)
  moreover have "getInputVectorWeights nbDims fsm n = Inr (expectedWeights nbDims fsm)"
    unfolding n by (rule getInputVectorWeights_exact)
  ultimately show ?thesis
    unfolding n_def [symmetric] using n by simp
qed

theorem getInputVectorWeights_assert_holds_witness:
  "getInputVectorWeights (\<lambda>name. if name = ''a'' then 2 else 1)
      [(''a'', \<lparr>weight = 3\<rparr>), (''b'', \<lparr>weight = 5\<rparr>)] 3 = Inr [3 / 2, 3 / 2, 5]
   \<and> totalDimensions (\<lambda>name. if name = ''a'' then 2 else 1)
        (collectFeatureNames [(''a'', \<lparr>weight = 3\<rparr>), (''b'', \<lparr>weight = 5\<rparr>)]) = 3"
proof -
  let ?nd = "\<lambda>name. if name = ''a'' then 2 else (1::nat)"
  let ?fsm = "[(''a'', \<lparr>weight = 3\<rparr>), (''b'', \<lparr>weight = 5\<rparr>)]"
  have d: "distinct (map fst ?fsm)" by simp
  have t: "totalDimensions ?nd (collectFeatureNames ?fsm) = 3"
    by (simp add: totalDimensions_def collectFeatureNames_def insertName_def)
  from getInputVectorWeights_assert_holds [OF d, of ?nd]
  obtain weights where "getInputVectorWeights ?nd ?fsm 3 = Inr weights"
    unfolding t by blast
  moreover have "getInputVectorWeights ?nd ?fsm 3 = Inr [3 / 2, 3 / 2, 5]"
    by (rule example_getInputVectorWeights)
  ultimately show ?thesis using t by simp
qed




section \<open>Similarity queries: helper lemmas\<close>

lemma trimLoop_set: "set (trimLoop rnd k maxCount res) \<subseteq> set res"
proof (induction rnd k maxCount res rule: trimLoop.induct)
  case (1 rnd k maxCount res)
  show ?case
  proof (cases "length res > maxCount")
    case True
    have "set (eraseAt (rnd k mod length res) res) \<subseteq> set res"
      unfolding eraseAt_def using set_take_subset set_drop_subset by fastforce
    with 1 True show ?thesis by (subst trimLoop.simps) auto
  next
    case False
    then show ?thesis by (subst trimLoop.simps) simp
  qed
qed








lemmas example_defs = exampleEngine_def loadFromCache_def loadModel_def exampleCache_def
  exampleNetwork_def exampleCatalog_def exampleTrack_def exampleSOM_def newEngine_def
  addTrackPosition_def addArtistLink_def addPosition_def addToCell_def positionsOf_def
  pushBackIfNotPresent_def emptyMatrix_def pollCancelled_def Let_def

lemma exampleEngine_trackPositions:
  "trackPositions exampleEngine = [(1, [(0, 0)]), (2, [(0, 0)]), (3, [(0, 0)])]"
  by (simp add: example_defs)

lemma exampleEngine_trackCell: "cells (trackMatrix exampleEngine) (0, 0) = [1, 2, 3]"
  by (simp add: example_defs)

lemma exampleEngine_similarTracks:
  "getSimilarTracks getSimilarObjects catalogAfterDeletion exampleEngine [2] 2 = [1]"
  by (simp add: getSimilarTracks_def getSimilarObjects_def exampleEngine_trackPositions
      exampleEngine_trackCell positionsOf_def catalogAfterDeletion_def trackExists_def Let_def)

lemma exampleEngine_artists0:
  "getSimilarArtistIdsForLinkType getSimilarObjects exampleEngine 20 2 0 = [21, 22]"
  by (simp add: getSimilarArtistIdsForLinkType_def getSimilarObjects_def example_defs)

lemma exampleEngine_artists1:
  "getSimilarArtistIdsForLinkType getSimilarObjects exampleEngine 20 2 2 = [23, 24]"
  by (simp add: getSimilarArtistIdsForLinkType_def getSimilarObjects_def example_defs)

lemma exampleEngine_union:
  "similarArtistIdsUnion getSimilarObjects exampleEngine 20 [0, 2] 2 = [21, 22, 23, 24]"
  by (simp add: similarArtistIdsUnion_def exampleEngine_artists0 exampleEngine_artists1
      pushBackIfNotPresent_def)

lemma exampleEngine_similarArtists:
  "getSimilarArtists getSimilarObjects firstDraws catalogAfterDeletion exampleEngine 20 [0, 2] 2
     = [21]"
  by (simp add: getSimilarArtists_def exampleEngine_union catalogAfterDeletion_def
      trimLoop.simps [of _ _ _ "[21]"])

section \<open>Similarity queries: the claims\<close>

text \<open>
  C6. Whatever \<^verbatim>\<open>getSimilarObjects\<close> collects from the index, every entity returned by
  \<^verbatim>\<open>getSimilarTracks\<close>, \<^verbatim>\<open>getSimilarTracksFromTrackList\<close>, \<^verbatim>\<open>getSimilarReleases\<close> and
  \<^verbatim>\<open>getSimilarArtists\<close> passes the existence check of the catalog at query time. So an
  entity deleted after training is in no result, although the index still refers to it;
  the filters are total functions and return a list for every index content.
\<close>

theorem similar_results_pass_existence_check:
  "(\<forall>t \<in> set (getSimilarTracks gso cat eng ids maxCount). trackExists cat t)
   \<and> (\<forall>t \<in> set (getSimilarTracksFromTrackList gso cat eng trackListId maxCount).
         trackExists cat t)
   \<and> (\<forall>r \<in> set (getSimilarReleases gso cat eng releaseId maxCount). releaseExists cat r)
   \<and> (\<forall>a \<in> set (getSimilarArtists gso rnd cat eng artistId linkTypes maxCount).
         artistExists cat a)"
proof (intro conjI ballI)
  fix t assume "t \<in> set (getSimilarTracks gso cat eng ids maxCount)"
  then show "trackExists cat t" by (simp add: getSimilarTracks_def Let_def)
next
  fix t assume "t \<in> set (getSimilarTracksFromTrackList gso cat eng trackListId maxCount)"
  then show "trackExists cat t"
    by (simp add: getSimilarTracksFromTrackList_def getSimilarTracks_def Let_def)
next
  fix r assume "r \<in> set (getSimilarReleases gso cat eng releaseId maxCount)"
  then show "releaseExists cat r"
    by (auto simp: getSimilarReleases_def Let_def split: if_splits)
next
  fix a assume "a \<in> set (getSimilarArtists gso rnd cat eng artistId linkTypes maxCount)"
  then have "a \<in> set (filter (artistExists cat)
      (similarArtistIdsUnion gso eng artistId linkTypes maxCount))"
    using trimLoop_set [of rnd 0 maxCount
        "filter (artistExists cat) (similarArtistIdsUnion gso eng artistId linkTypes maxCount)"]
    by (auto simp: getSimilarArtists_def Let_def)
  then show "artistExists cat a" by simp
qed

theorem similar_results_pass_existence_check_witness:
  "3 \<in> set (cells (trackMatrix exampleEngine) (0, 0))
   \<and> \<not> trackExists catalogAfterDeletion 3
   \<and> getSimilarTracks getSimilarObjects catalogAfterDeletion exampleEngine [2] 2 = [1]
   \<and> trackExists catalogAfterDeletion 1
   \<and> getSimilarArtists getSimilarObjects firstDraws catalogAfterDeletion exampleEngine 20 [0, 2] 2
       = [21]
   \<and> artistExists catalogAfterDeletion 21"
proof -
  have stale: "3 \<in> set (cells (trackMatrix exampleEngine) (0, 0))"
    by (simp add: exampleEngine_trackCell)
  have gone: "\<not> trackExists catalogAfterDeletion 3"
    by (simp add: trackExists_def catalogAfterDeletion_def)
  from similar_results_pass_existence_check
    [of getSimilarObjects catalogAfterDeletion exampleEngine "[2]" 2 1 10 firstDraws 20 "[0, 2]"]
  have "trackExists catalogAfterDeletion 1" and "artistExists catalogAfterDeletion 21"
    by (simp_all add: exampleEngine_similarTracks exampleEngine_similarArtists)
  with stale gone show ?thesis
    by (simp add: exampleEngine_similarTracks exampleEngine_similarArtists)
qed




end
